theory Spec2Isabelle
  imports Main "HOL-Library.Word"
begin

section \<open>A shallow embedding of RingBuffer.h and RingBuffer.c\<close>

text \<open>
  The C type \<open>size_t\<close> is taken as an unsigned 64-bit word (the header includes
  CoreFoundation, a 64-bit platform): \<open>+\<close> and \<open>-\<close> wrap around, \<open>div\<close> and
  \<open>mod\<close> are the unsigned \<open>/\<close> and \<open>%\<close> of C, \<open>- 1\<close> is \<open>(size_t)-1\<close>.
  A \<open>char\<close> is an 8-bit word.

  The storage that \<open>buffer->buffer\<close> points to is a list of bytes whose length is
  the size of the allocation. A pointer into it is an offset. The allocator
  (\<open>calloc\<close>) is taken to succeed and to return zeroed memory.

  C leaves \<open>x / 0\<close>, \<open>x % 0\<close> and a \<open>memcpy\<close> outside an object undefined. The
  embedding makes each of them a value of type \<open>error\<close>, so that a function whose
  C execution is undefined returns \<open>Inl\<close> and never a made-up number.
\<close>

type_synonym size_t = "64 word"
type_synonym byte = "8 word"

datatype error = DivisionByZero | OutOfBounds

record RingBuffer =
  buffer :: "byte list"
  capacity :: size_t
  start :: size_t
  end' :: size_t

subsection \<open>Memory\<close>

text \<open>
  \<open>memcpy(dst + doff, src + soff, n)\<close>: copies \<open>n\<close> bytes and returns the
  destination pointer. The result \<open>Some m\<close> is that (non-null) pointer together
  with the destination region after the copy; \<open>None\<close> stands for a null result,
  which \<open>memcpy\<close> on a valid destination never produces. Leaving either region is
  undefined behaviour.
\<close>

definition memcpy :: "byte list \<Rightarrow> nat \<Rightarrow> byte list \<Rightarrow> nat \<Rightarrow> nat \<Rightarrow> error + byte list option" where
  "memcpy dst doff src soff n =
     (if doff + n \<le> length dst \<and> soff + n \<le> length src
      then Inr (Some (take doff dst @ take n (drop soff src) @ drop (doff + n) dst))
      else Inl OutOfBounds)"

subsection \<open>RingBuffer.c: construction\<close>

definition RingBuffer_create :: "size_t \<Rightarrow> RingBuffer" where
  "RingBuffer_create cap =
     \<lparr> buffer = replicate (unat cap) 0, capacity = cap, start = 0, end' = 0 \<rparr>"

subsection \<open>RingBuffer.h: the inline functions\<close>

text \<open>\<open>return buffer->end % buffer->capacity / buffer->start;\<close>\<close>

definition RingBuffer_available_data :: "RingBuffer \<Rightarrow> error + size_t" where
  "RingBuffer_available_data b =
     (if capacity b = 0 then Inl DivisionByZero
      else if start b = 0 then Inl DivisionByZero
      else Inr ((end' b mod capacity b) div start b))"

text \<open>\<open>return buffer->capacity - buffer->end - 1;\<close>\<close>

definition RingBuffer_available_space :: "RingBuffer \<Rightarrow> size_t" where
  "RingBuffer_available_space b = capacity b - end' b - 1"

definition RingBuffer_empty :: "RingBuffer \<Rightarrow> error + bool" where
  "RingBuffer_empty b =
     (case RingBuffer_available_data b of Inl e \<Rightarrow> Inl e | Inr d \<Rightarrow> Inr (d = 0))"

definition RingBuffer_full :: "RingBuffer \<Rightarrow> bool" where
  "RingBuffer_full b = (RingBuffer_available_space b = 0)"

text \<open>\<open>buffer->buffer + buffer->start\<close> and \<open>buffer->buffer + buffer->end\<close>, as offsets.\<close>

definition RingBuffer_starts_at :: "RingBuffer \<Rightarrow> nat" where
  "RingBuffer_starts_at b = unat (start b)"

definition RingBuffer_ends_at :: "RingBuffer \<Rightarrow> nat" where
  "RingBuffer_ends_at b = unat (end' b)"

text \<open>\<open>buffer->start = (buffer->start + amount) % buffer->capacity;\<close>\<close>

definition RingBuffer_commit_read :: "RingBuffer \<Rightarrow> size_t \<Rightarrow> error + RingBuffer" where
  "RingBuffer_commit_read b amount =
     (if capacity b = 0 then Inl DivisionByZero
      else Inr (b\<lparr>start := (start b + amount) mod capacity b\<rparr>))"

text \<open>\<open>buffer->end = (buffer->end + amount) % buffer->capacity;\<close>\<close>

definition Ringbuffer_commit_write :: "RingBuffer \<Rightarrow> size_t \<Rightarrow> error + RingBuffer" where
  "Ringbuffer_commit_write b amount =
     (if capacity b = 0 then Inl DivisionByZero
      else Inr (b\<lparr>end' := (end' b + amount) mod capacity b\<rparr>))"

text \<open>\<open>RingBuffer_commit_read(buffer, RingBuffer_available_data(buffer));\<close>\<close>

definition RingBuffer_clear :: "RingBuffer \<Rightarrow> error + RingBuffer" where
  "RingBuffer_clear b =
     (case RingBuffer_available_data b of
        Inl e \<Rightarrow> Inl e
      | Inr d \<Rightarrow> RingBuffer_commit_read b d)"

subsection \<open>RingBuffer.c: write and read\<close>

text \<open>
  \<open>RingBuffer_write\<close> returns the C return value and the buffer after the call.
  The order is the source's: the reset of both cursors when no data is
  available comes first, then the space check, the copy to \<open>buffer + end\<close>, the
  null test of the result of \<open>memcpy\<close>, and the commit.
\<close>

definition RingBuffer_write :: "RingBuffer \<Rightarrow> byte list \<Rightarrow> size_t \<Rightarrow> error + (size_t \<times> RingBuffer)" where
  "RingBuffer_write b data len =
     (case RingBuffer_available_data b of
        Inl e \<Rightarrow> Inl e
      | Inr d \<Rightarrow>
          let b1 = (if d = 0 then b\<lparr>start := 0, end' := 0\<rparr> else b) in
          if len > RingBuffer_available_space b1 then Inr (- 1, b1)
          else
            (case memcpy (buffer b1) (RingBuffer_ends_at b1) data 0 (unat len) of
               Inl e \<Rightarrow> Inl e
             | Inr None \<Rightarrow> Inr (- 1, b1)
             | Inr (Some m) \<Rightarrow>
                 (case Ringbuffer_commit_write (b1\<lparr>buffer := m\<rparr>) len of
                    Inl e \<Rightarrow> Inl e
                  | Inr b2 \<Rightarrow> Inr (len, b2))))"

text \<open>
  \<open>RingBuffer_read\<close> returns the C return value, the buffer after the call and
  the caller's \<open>target\<close> region after the call.
\<close>

definition RingBuffer_read :: "RingBuffer \<Rightarrow> byte list \<Rightarrow> size_t \<Rightarrow> error + (size_t \<times> RingBuffer \<times> byte list)" where
  "RingBuffer_read b target amount =
     (case RingBuffer_available_data b of
        Inl e \<Rightarrow> Inl e
      | Inr d \<Rightarrow>
          if amount > d then Inr (- 1, b, target)
          else
            (case memcpy target 0 (buffer b) (RingBuffer_starts_at b) (unat amount) of
               Inl e \<Rightarrow> Inl e
             | Inr None \<Rightarrow> Inr (- 1, b, target)
             | Inr (Some t) \<Rightarrow>
                 (case RingBuffer_commit_read b amount of
                    Inl e \<Rightarrow> Inl e
                  | Inr b1 \<Rightarrow>
                      Inr (amount,
                           if end' b1 = start b1 then b1\<lparr>start := 0, end' := 0\<rparr> else b1,
                           t))))"

subsection \<open>Predicates and reference definitions used by the properties\<close>

text \<open>The cursor bounds of the data model: both cursors lie inside the storage.\<close>

definition cursor_bounds :: "RingBuffer \<Rightarrow> bool" where
  "cursor_bounds b = (start b < capacity b \<and> end' b < capacity b)"

text \<open>
  The constructor as the specification words it (a zero capacity is rejected with
  \<open>InvalidCapacityError\<close>), to be compared with \<open>RingBuffer_create\<close>.
\<close>

datatype create_error = InvalidCapacityError

definition spec_create :: "size_t \<Rightarrow> create_error + RingBuffer" where
  "spec_create cap =
     (if cap = 0 then Inl InvalidCapacityError
      else Inr \<lparr> buffer = replicate (unat cap) 0, capacity = cap, start = 0, end' = 0 \<rparr>)"

text \<open>
  The count of unread bytes as the specification words it (0 for the normalized
  empty buffer, otherwise the cursor distance modulo the capacity), to be compared
  with \<open>RingBuffer_available_data\<close>.
\<close>

definition spec_available_data :: "RingBuffer \<Rightarrow> size_t" where
  "spec_available_data b =
     (if start b = 0 \<and> end' b = 0 then 0
      else (end' b - start b + capacity b) mod capacity b)"

section \<open>Basic facts about the operations\<close>

lemma available_data_defined:
  "RingBuffer_available_data b = Inr d \<Longrightarrow>
     capacity b \<noteq> 0 \<and> start b \<noteq> 0 \<and> d = (end' b mod capacity b) div start b"
  by (auto simp: RingBuffer_available_data_def split: if_splits)

lemma size_t_mod_less: "(c::size_t) \<noteq> 0 \<Longrightarrow> x mod c < c"
  by (simp add: word_mod_less_divisor word_neq_0_conv)

lemma memcpy_in_bounds:
  "doff + n \<le> length dst \<Longrightarrow> soff + n \<le> length src \<Longrightarrow>
   memcpy dst doff src soff n =
     Inr (Some (take doff dst @ take n (drop soff src) @ drop (doff + n) dst))"
  by (simp add: memcpy_def)

lemma write_returns:
  assumes "RingBuffer_write b data len = Inr (r, b')"
  shows "r = len \<or> r = - 1"
  using assms
  by (auto simp: RingBuffer_write_def Let_def split: sum.splits if_splits option.splits)

lemma read_returns:
  assumes "RingBuffer_read b target amount = Inr (r, b', t)"
  shows "r = amount \<or> r = - 1"
  using assms
  by (auto simp: RingBuffer_read_def Let_def split: sum.splits if_splits option.splits)

lemma write_short_of_space:
  assumes "RingBuffer_available_data b = Inr d"
    and "RingBuffer_available_space (if d = 0 then b\<lparr>start := 0, end' := 0\<rparr> else b) < len"
  shows "RingBuffer_write b data len =
           Inr (- 1, if d = 0 then b\<lparr>start := 0, end' := 0\<rparr> else b)"
  using assms by (simp add: RingBuffer_write_def Let_def)

lemma read_short_of_data:
  assumes "RingBuffer_available_data b = Inr d" and "d < amount"
  shows "RingBuffer_read b target amount = Inr (- 1, b, target)"
  using assms by (simp add: RingBuffer_read_def)

lemma read_succeeds:
  assumes d: "RingBuffer_available_data b = Inr d" and ok: "amount \<le> d"
    and inb: "unat (start b) + unat amount \<le> length (buffer b)"
    and tgt: "unat amount \<le> length target"
  shows "RingBuffer_read b target amount =
           Inr (amount,
                (if end' b = (start b + amount) mod capacity b
                 then b\<lparr>start := 0, end' := 0\<rparr>
                 else b\<lparr>start := (start b + amount) mod capacity b\<rparr>),
                take (unat amount) (drop (unat (start b)) (buffer b)) @ drop (unat amount) target)"
proof -
  have c: "capacity b \<noteq> 0" using d by (simp add: available_data_defined)
  have chk: "\<not> d < amount" using ok by simp
  have cp: "memcpy target 0 (buffer b) (RingBuffer_starts_at b) (unat amount) =
      Inr (Some (take (unat amount) (drop (unat (start b)) (buffer b)) @ drop (unat amount) target))"
    using inb tgt by (simp add: memcpy_in_bounds RingBuffer_starts_at_def)
  show ?thesis
    using d chk c by (simp add: RingBuffer_read_def cp RingBuffer_commit_read_def)
qed

lemma write_bounds:
  assumes "cursor_bounds b" and "RingBuffer_write b data len = Inr (r, b')"
  shows "cursor_bounds b'"
proof -
  from assms(2) obtain d where d: "RingBuffer_available_data b = Inr d"
    by (auto simp: RingBuffer_write_def split: sum.splits)
  then have c: "capacity b \<noteq> 0" by (simp add: available_data_defined)
  then have c0: "0 < capacity b" by (simp add: word_neq_0_conv)
  show ?thesis
    using assms d c c0 size_t_mod_less[OF c]
    by (auto simp: RingBuffer_write_def Let_def cursor_bounds_def Ringbuffer_commit_write_def
          memcpy_def split: sum.splits if_splits option.splits)
qed

lemma read_bounds:
  assumes "cursor_bounds b" and "RingBuffer_read b target amount = Inr (r, b', t)"
  shows "cursor_bounds b'"
proof -
  from assms(2) obtain d where d: "RingBuffer_available_data b = Inr d"
    by (auto simp: RingBuffer_read_def split: sum.splits)
  then have c: "capacity b \<noteq> 0" by (simp add: available_data_defined)
  then have c0: "0 < capacity b" by (simp add: word_neq_0_conv)
  show ?thesis
    using assms d c c0 size_t_mod_less[OF c]
    by (auto simp: RingBuffer_read_def Let_def cursor_bounds_def RingBuffer_commit_read_def
          memcpy_def split: sum.splits if_splits option.splits)
qed

lemma clear_bounds:
  assumes "cursor_bounds b" and "RingBuffer_clear b = Inr b'"
  shows "cursor_bounds b'"
  using assms size_t_mod_less[of "capacity b"]
  by (auto simp: RingBuffer_clear_def cursor_bounds_def RingBuffer_commit_read_def
        split: sum.splits if_splits)

lemma create_bounds: "0 < cap \<Longrightarrow> cursor_bounds (RingBuffer_create cap)"
  by (simp add: cursor_bounds_def RingBuffer_create_def)

section \<open>The properties of the specification\<close>

text \<open>
  C6. A read of more bytes than \<open>availableData()\<close> is claimed to fail and to
  change nothing, on every buffer state. The buffer \<open>create(8)\<close> returns holds no
  unread byte, yet the read of 1 byte divides by zero in \<open>availableData()\<close> and
  reports nothing. The same happens on the buffer that a draining read leaves:
  with \<open>start = 2\<close>, \<open>end = 3\<close> the read of the one unread byte resets both
  cursors to 0, and the next read of 1 byte divides by zero.
\<close>

theorem read_lacking_data_diverges:
  "spec_available_data (RingBuffer_create 8) = 0 \<and>
   RingBuffer_read (RingBuffer_create 8) [0] 1 = Inl DivisionByZero \<and>
   RingBuffer_read
     \<lparr>buffer = [0, 0, 7, 0, 0, 0, 0, 0], capacity = 8, start = 2, end' = 3\<rparr> [9] 1 =
     Inr (1, \<lparr>buffer = [0, 0, 7, 0, 0, 0, 0, 0], capacity = 8, start = 0, end' = 0\<rparr>, [7]) \<and>
   RingBuffer_read
     \<lparr>buffer = [0, 0, 7, 0, 0, 0, 0, 0], capacity = 8, start = 0, end' = 0\<rparr> [9] 1 =
     Inl DivisionByZero"
  by (simp add: RingBuffer_create_def RingBuffer_read_def RingBuffer_available_data_def
        RingBuffer_starts_at_def memcpy_def RingBuffer_commit_read_def spec_available_data_def)

text \<open>
  C1. \<open>availableData()\<close> is claimed to return the number of unread bytes without
  any division. The source divides by \<open>start\<close>: on every buffer whose \<open>start\<close> is
  0, in particular on every freshly created one, the call divides by zero and has
  no value, where the specification's count is 0; and with \<open>start = 2\<close>,
  \<open>end = 5\<close>, \<open>capacity = 8\<close> it returns 2 where three bytes are unread.
\<close>

theorem available_data_divides_by_start:
  "RingBuffer_available_data (b\<lparr>start := 0\<rparr>) = Inl DivisionByZero \<and>
   RingBuffer_available_data (RingBuffer_create 8) = Inl DivisionByZero \<and>
   spec_available_data (RingBuffer_create 8) = 0 \<and>
   RingBuffer_available_data
     \<lparr>buffer = [0, 0, 1, 2, 3, 0, 0, 0], capacity = 8, start = 2, end' = 5\<rparr> = Inr 2 \<and>
   spec_available_data
     \<lparr>buffer = [0, 0, 1, 2, 3, 0, 0, 0], capacity = 8, start = 2, end' = 5\<rparr> = 3"
  by (simp add: RingBuffer_available_data_def RingBuffer_create_def spec_available_data_def)

text \<open>
  C2 (amended). \<open>availableSpace()\<close> is \<open>capacity - end - 1\<close>: for \<open>end < capacity\<close>
  it is the number of bytes between \<open>end\<close> and the last slot, which stays
  reserved, and it does not depend on \<open>start\<close> (nor on \<open>availableData()\<close>).
\<close>

theorem available_space_counts_from_end:
  "end' b < capacity b \<Longrightarrow>
     unat (RingBuffer_available_space b) = unat (capacity b) - 1 - unat (end' b) \<and>
     unat (end' b) + unat (RingBuffer_available_space b) + 1 = unat (capacity b) \<and>
     RingBuffer_available_space (b\<lparr>start := s\<rparr>) = RingBuffer_available_space b"
  unfolding RingBuffer_available_space_def
  by (simp; unat_arith)

theorem available_space_counts_from_end_witness:
  "end' \<lparr>buffer = [0, 0, 1, 2, 3, 0, 0, 0], capacity = 8, start = 2, end' = 5\<rparr>
     < capacity \<lparr>buffer = [0, 0, 1, 2, 3, 0, 0, 0], capacity = 8, start = 2, end' = 5\<rparr> \<and>
   unat (RingBuffer_available_space
     \<lparr>buffer = [0, 0, 1, 2, 3, 0, 0, 0], capacity = 8, start = 2, end' = 5\<rparr>) = 2 \<and>
   RingBuffer_available_space
     \<lparr>buffer = [0, 0, 1, 2, 3, 0, 0, 0], capacity = 8, start = 7, end' = 5\<rparr> =
   RingBuffer_available_space
     \<lparr>buffer = [0, 0, 1, 2, 3, 0, 0, 0], capacity = 8, start = 2, end' = 5\<rparr>"
proof -
  let ?b = "\<lparr>buffer = [0, 0, 1, 2, 3, 0, 0, 0], capacity = 8, start = 2, end' = 5\<rparr> :: RingBuffer"
  have h: "end' ?b < capacity ?b" by simp
  from available_space_counts_from_end[OF h, of 7] h show ?thesis by simp
qed

text \<open>
  The claim as stated fails with \<open>start = 2\<close>, \<open>end = 5\<close>, \<open>capacity = 8\<close>:
  \<open>availableData()\<close> is 2 and \<open>availableSpace()\<close> is 2, not \<open>8 - 1 - 2\<close>.
\<close>

theorem available_space_counterexample:
  "RingBuffer_available_data
     \<lparr>buffer = [0, 0, 1, 2, 3, 0, 0, 0], capacity = 8, start = 2, end' = 5\<rparr> = Inr 2 \<and>
   RingBuffer_available_space
     \<lparr>buffer = [0, 0, 1, 2, 3, 0, 0, 0], capacity = 8, start = 2, end' = 5\<rparr> = 2 \<and>
   RingBuffer_available_space
     \<lparr>buffer = [0, 0, 1, 2, 3, 0, 0, 0], capacity = 8, start = 2, end' = 5\<rparr> \<noteq>
   capacity \<lparr>buffer = [0, 0, 1, 2, 3, 0, 0, 0], capacity = 8, start = 2, end' = 5\<rparr> - 1 - 2"
  by (simp add: RingBuffer_available_data_def RingBuffer_available_space_def)

text \<open>
  C3. A write of more bytes than \<open>availableSpace()\<close> is claimed to fail and to
  change nothing, on every buffer state. On the buffer \<open>create(8)\<close> returns,
  where 7 bytes are free, a write of 8 bytes divides by zero in
  \<open>availableData()\<close> and reports nothing. On the wrapped buffer with \<open>start = 3\<close>,
  \<open>end = 2\<close>, \<open>capacity = 8\<close>, which holds 7 unread bytes and has
  \<open>availableSpace() = 5\<close>, \<open>availableData()\<close> is \<open>2 / 3 = 0\<close>: the write of 8 bytes
  fails with both cursors reset to 0, so the unread bytes are lost, and a write
  of 6 bytes succeeds over them.
\<close>

theorem write_lacking_space_diverges:
  "RingBuffer_available_space (RingBuffer_create 8) = 7 \<and>
   RingBuffer_write (RingBuffer_create 8) [1, 2, 3, 4, 5, 6, 7, 8] 8 = Inl DivisionByZero \<and>
   RingBuffer_available_space
     \<lparr>buffer = [4, 5, 0, 1, 2, 3, 4, 5], capacity = 8, start = 3, end' = 2\<rparr> = 5 \<and>
   RingBuffer_available_data
     \<lparr>buffer = [4, 5, 0, 1, 2, 3, 4, 5], capacity = 8, start = 3, end' = 2\<rparr> = Inr 0 \<and>
   spec_available_data
     \<lparr>buffer = [4, 5, 0, 1, 2, 3, 4, 5], capacity = 8, start = 3, end' = 2\<rparr> = 7 \<and>
   RingBuffer_write
     \<lparr>buffer = [4, 5, 0, 1, 2, 3, 4, 5], capacity = 8, start = 3, end' = 2\<rparr>
     [1, 2, 3, 4, 5, 6, 7, 8] 8 =
     Inr (- 1, \<lparr>buffer = [4, 5, 0, 1, 2, 3, 4, 5], capacity = 8, start = 0, end' = 0\<rparr>) \<and>
   \<lparr>buffer = [4, 5, 0, 1, 2, 3, 4, 5], capacity = 8, start = 0, end' = 0\<rparr> \<noteq>
     \<lparr>buffer = [4, 5, 0, 1, 2, 3, 4, 5], capacity = 8, start = 3, end' = 2\<rparr> \<and>
   RingBuffer_write
     \<lparr>buffer = [4, 5, 0, 1, 2, 3, 4, 5], capacity = 8, start = 3, end' = 2\<rparr>
     [9, 9, 9, 9, 9, 9] 6 =
     Inr (6, \<lparr>buffer = [9, 9, 9, 9, 9, 9, 4, 5], capacity = 8, start = 0, end' = 6\<rparr>)"
  by (simp add: RingBuffer_create_def RingBuffer_write_def RingBuffer_available_data_def
        RingBuffer_available_space_def RingBuffer_ends_at_def memcpy_def
        Ringbuffer_commit_write_def spec_available_data_def)

text \<open>
  C4. The equation \<open>availableData() + availableSpace() == capacity - 1\<close> is claimed
  after every operation of a sequence that begins with \<open>create\<close>. On the buffer
  that \<open>create\<close> returns, whatever its capacity, \<open>availableData()\<close> divides by
  zero, and so do \<open>isEmpty\<close>, \<open>write\<close>, \<open>read\<close> and \<open>clear\<close>: the left-hand side
  has no value and no operation of such a sequence returns.
\<close>

theorem operations_after_create_divide_by_zero:
  "RingBuffer_available_data (RingBuffer_create cap) = Inl DivisionByZero \<and>
   RingBuffer_empty (RingBuffer_create cap) = Inl DivisionByZero \<and>
   RingBuffer_write (RingBuffer_create cap) data len = Inl DivisionByZero \<and>
   RingBuffer_read (RingBuffer_create cap) target amount = Inl DivisionByZero \<and>
   RingBuffer_clear (RingBuffer_create cap) = Inl DivisionByZero"
proof -
  have "RingBuffer_available_data (RingBuffer_create cap) = Inl DivisionByZero"
    by (simp add: RingBuffer_available_data_def RingBuffer_create_def)
  then show ?thesis
    by (simp add: RingBuffer_empty_def RingBuffer_write_def RingBuffer_read_def
          RingBuffer_clear_def)
qed

text \<open>
  C5. Writing \<open>L \<le> availableSpace()\<close> bytes \<open>B\<close> and then reading \<open>L\<close> bytes is
  claimed to succeed and to yield \<open>B\<close>. On the buffer \<open>create(8)\<close> returns,
  where 7 bytes are free, the write of the five bytes \<open>ABCDE\<close> divides by zero
  in \<open>availableData()\<close> and returns nothing. On a buffer without unread bytes
  whose cursors are both 3, the write of two bytes returns 2, but then
  \<open>availableData()\<close> is \<open>5 / 3 = 1\<close> and the read of those two bytes is refused
  with \<open>(size_t)-1\<close>.
\<close>

theorem write_then_read_diverges:
  "RingBuffer_available_space (RingBuffer_create 8) = 7 \<and>
   RingBuffer_write (RingBuffer_create 8) [65, 66, 67, 68, 69] 5 = Inl DivisionByZero \<and>
   RingBuffer_available_space
     \<lparr>buffer = [0, 0, 0, 0, 0, 0, 0, 0], capacity = 8, start = 3, end' = 3\<rparr> = 4 \<and>
   RingBuffer_write
     \<lparr>buffer = [0, 0, 0, 0, 0, 0, 0, 0], capacity = 8, start = 3, end' = 3\<rparr> [9, 9] 2 =
     Inr (2, \<lparr>buffer = [0, 0, 0, 9, 9, 0, 0, 0], capacity = 8, start = 3, end' = 5\<rparr>) \<and>
   RingBuffer_available_data
     \<lparr>buffer = [0, 0, 0, 9, 9, 0, 0, 0], capacity = 8, start = 3, end' = 5\<rparr> = Inr 1 \<and>
   RingBuffer_read
     \<lparr>buffer = [0, 0, 0, 9, 9, 0, 0, 0], capacity = 8, start = 3, end' = 5\<rparr> [0, 0] 2 =
     Inr (- 1, \<lparr>buffer = [0, 0, 0, 9, 9, 0, 0, 0], capacity = 8, start = 3, end' = 5\<rparr>,
          [0, 0])"
  by (simp add: RingBuffer_create_def RingBuffer_write_def RingBuffer_read_def
        RingBuffer_available_data_def RingBuffer_available_space_def RingBuffer_ends_at_def
        memcpy_def Ringbuffer_commit_write_def)

text \<open>
  C7 (amended). Whenever \<open>availableData()\<close> has a value \<open>d\<close>, \<open>clear()\<close> sets
  \<open>start\<close> to \<open>(start + d) mod capacity\<close> and changes nothing else: \<open>end\<close> and the
  stored bytes stay, and the cursors are not reset. This is the cursor update that
  \<open>read(target, d)\<close> commits; the two calls leave the same buffer unless the
  advanced \<open>start\<close> equals \<open>end\<close>, where only \<open>read\<close> resets both cursors to 0.
\<close>

theorem clear_commits_available_data:
  assumes d: "RingBuffer_available_data b = Inr d"
  shows "RingBuffer_clear b = Inr (b\<lparr>start := (start b + d) mod capacity b\<rparr>) \<and>
         (unat (start b) + unat d \<le> length (buffer b) \<longrightarrow> unat d \<le> length target \<longrightarrow>
            RingBuffer_read b target d =
              Inr (d,
                   (if end' b = (start b + d) mod capacity b
                    then b\<lparr>start := 0, end' := 0\<rparr>
                    else b\<lparr>start := (start b + d) mod capacity b\<rparr>),
                   take (unat d) (drop (unat (start b)) (buffer b)) @ drop (unat d) target))"
proof -
  have c: "capacity b \<noteq> 0" using d by (simp add: available_data_defined)
  have "RingBuffer_clear b = Inr (b\<lparr>start := (start b + d) mod capacity b\<rparr>)"
    using d c by (simp add: RingBuffer_clear_def RingBuffer_commit_read_def)
  moreover have "RingBuffer_read b target d = Inr (d,
                   (if end' b = (start b + d) mod capacity b
                    then b\<lparr>start := 0, end' := 0\<rparr>
                    else b\<lparr>start := (start b + d) mod capacity b\<rparr>),
                   take (unat d) (drop (unat (start b)) (buffer b)) @ drop (unat d) target)"
    if "unat (start b) + unat d \<le> length (buffer b)" and "unat d \<le> length target"
    using read_succeeds[OF d _ that] by simp
  ultimately show ?thesis by blast
qed

theorem clear_commits_available_data_witness:
  "RingBuffer_clear
     \<lparr>buffer = [0, 0, 1, 2, 3, 0, 0, 0], capacity = 8, start = 2, end' = 5\<rparr> =
     Inr \<lparr>buffer = [0, 0, 1, 2, 3, 0, 0, 0], capacity = 8, start = 4, end' = 5\<rparr> \<and>
   RingBuffer_read
     \<lparr>buffer = [0, 0, 1, 2, 3, 0, 0, 0], capacity = 8, start = 2, end' = 5\<rparr> [9, 9, 9] 2 =
     Inr (2, \<lparr>buffer = [0, 0, 1, 2, 3, 0, 0, 0], capacity = 8, start = 4, end' = 5\<rparr>,
          [1, 2, 9])"
proof -
  let ?b = "\<lparr>buffer = [0, 0, 1, 2, 3, 0, 0, 0], capacity = 8, start = 2, end' = 5\<rparr> :: RingBuffer"
  have d: "RingBuffer_available_data ?b = Inr 2"
    by (simp add: RingBuffer_available_data_def)
  from clear_commits_available_data[OF d, of "[9, 9, 9]"] show ?thesis by simp
qed

text \<open>
  The claim as stated fails with \<open>start = 2\<close>, \<open>end = 5\<close>, \<open>capacity = 8\<close>: after
  \<open>clear()\<close> the cursors are 4 and 5, not 0 and 0, \<open>availableData()\<close> is 1, not 0,
  and a second \<open>clear()\<close> moves \<open>start\<close> again, to 5. With \<open>start = 2\<close>, \<open>end = 3\<close>,
  \<open>clear()\<close> leaves the cursors at 3 and 3 while the read of \<open>availableData()\<close>
  bytes leaves them at 0 and 0.
\<close>

theorem clear_counterexample:
  "RingBuffer_clear
     \<lparr>buffer = [0, 0, 1, 2, 3, 0, 0, 0], capacity = 8, start = 2, end' = 5\<rparr> =
     Inr \<lparr>buffer = [0, 0, 1, 2, 3, 0, 0, 0], capacity = 8, start = 4, end' = 5\<rparr> \<and>
   RingBuffer_available_data
     \<lparr>buffer = [0, 0, 1, 2, 3, 0, 0, 0], capacity = 8, start = 4, end' = 5\<rparr> = Inr 1 \<and>
   RingBuffer_clear
     \<lparr>buffer = [0, 0, 1, 2, 3, 0, 0, 0], capacity = 8, start = 4, end' = 5\<rparr> =
     Inr \<lparr>buffer = [0, 0, 1, 2, 3, 0, 0, 0], capacity = 8, start = 5, end' = 5\<rparr> \<and>
   RingBuffer_clear
     \<lparr>buffer = [0, 0, 7, 0, 0, 0, 0, 0], capacity = 8, start = 2, end' = 3\<rparr> =
     Inr \<lparr>buffer = [0, 0, 7, 0, 0, 0, 0, 0], capacity = 8, start = 3, end' = 3\<rparr> \<and>
   RingBuffer_read
     \<lparr>buffer = [0, 0, 7, 0, 0, 0, 0, 0], capacity = 8, start = 2, end' = 3\<rparr> [9] 1 =
     Inr (1, \<lparr>buffer = [0, 0, 7, 0, 0, 0, 0, 0], capacity = 8, start = 0, end' = 0\<rparr>, [7])"
  by (simp add: RingBuffer_clear_def RingBuffer_read_def RingBuffer_available_data_def
        RingBuffer_starts_at_def memcpy_def RingBuffer_commit_read_def)

text \<open>
  C8 (amended). \<open>create(capacity)\<close> makes no check of its argument: for every
  capacity, 0 included, it returns a buffer whose storage is exactly \<open>capacity\<close>
  zero bytes and whose cursors are \<open>start = end = 0\<close>. For a nonzero capacity this
  is the buffer the specification's constructor returns.
\<close>

theorem create_any_capacity:
  "buffer (RingBuffer_create cap) = replicate (unat cap) 0 \<and>
   length (buffer (RingBuffer_create cap)) = unat cap \<and>
   capacity (RingBuffer_create cap) = cap \<and>
   start (RingBuffer_create cap) = 0 \<and>
   end' (RingBuffer_create cap) = 0 \<and>
   (cap \<noteq> 0 \<longrightarrow> spec_create cap = Inr (RingBuffer_create cap))"
  by (simp add: RingBuffer_create_def spec_create_def)

theorem create_any_capacity_witness:
  "buffer (RingBuffer_create 8) = [0, 0, 0, 0, 0, 0, 0, 0] \<and>
   spec_create 8 = Inr (RingBuffer_create 8)"
proof -
  have "unat (8 :: size_t) = 8" by simp
  moreover have "replicate 8 (0 :: byte) = [0, 0, 0, 0, 0, 0, 0, 0]"
    by (simp add: numeral_eq_Suc)
  ultimately show ?thesis
    using create_any_capacity[of 8] by simp
qed

text \<open>
  The claim as stated fails at capacity 0: the specification's constructor fails
  with \<open>InvalidCapacityError\<close>, the source constructs a buffer of capacity 0 with
  empty storage.
\<close>

theorem create_zero_counterexample:
  "spec_create 0 = Inl InvalidCapacityError \<and>
   RingBuffer_create 0 = \<lparr>buffer = [], capacity = 0, start = 0, end' = 0\<rparr> \<and>
   spec_create 0 \<noteq> Inr (RingBuffer_create 0)"
  by (simp add: RingBuffer_create_def spec_create_def)

text \<open>
  C9. The cursor bounds \<open>start < capacity\<close> and \<open>end < capacity\<close> (both cursors
  are unsigned, so \<open>0 \<le>\<close> is for free) hold for the buffer that \<open>create\<close> returns
  for a capacity above 0, and every \<open>write\<close>, \<open>read\<close> and \<open>clear\<close> that returns
  from a buffer within the bounds leaves a buffer within the bounds, whether the
  call succeeds or reports failure.
\<close>

theorem cursor_bounds_invariant:
  "(0 < cap \<longrightarrow> cursor_bounds (RingBuffer_create cap)) \<and>
   (cursor_bounds b \<longrightarrow>
      (\<forall>data len r b'. RingBuffer_write b data len = Inr (r, b') \<longrightarrow> cursor_bounds b') \<and>
      (\<forall>target amount r b' t. RingBuffer_read b target amount = Inr (r, b', t) \<longrightarrow>
          cursor_bounds b') \<and>
      (\<forall>b'. RingBuffer_clear b = Inr b' \<longrightarrow> cursor_bounds b'))"
  using create_bounds write_bounds read_bounds clear_bounds by blast

theorem cursor_bounds_invariant_witness:
  "cursor_bounds (RingBuffer_create 8) \<and>
   cursor_bounds \<lparr>buffer = [0, 0, 1, 2, 3, 0, 0, 0], capacity = 8, start = 2, end' = 5\<rparr> \<and>
   RingBuffer_write
     \<lparr>buffer = [0, 0, 1, 2, 3, 0, 0, 0], capacity = 8, start = 2, end' = 5\<rparr> [4, 5] 2 =
     Inr (2, \<lparr>buffer = [0, 0, 1, 2, 3, 4, 5, 0], capacity = 8, start = 2, end' = 7\<rparr>) \<and>
   cursor_bounds \<lparr>buffer = [0, 0, 1, 2, 3, 4, 5, 0], capacity = 8, start = 2, end' = 7\<rparr> \<and>
   RingBuffer_read
     \<lparr>buffer = [0, 0, 1, 2, 3, 0, 0, 0], capacity = 8, start = 2, end' = 5\<rparr> [9, 9] 2 =
     Inr (2, \<lparr>buffer = [0, 0, 1, 2, 3, 0, 0, 0], capacity = 8, start = 4, end' = 5\<rparr>, [1, 2]) \<and>
   RingBuffer_clear
     \<lparr>buffer = [0, 0, 1, 2, 3, 0, 0, 0], capacity = 8, start = 2, end' = 5\<rparr> =
     Inr \<lparr>buffer = [0, 0, 1, 2, 3, 0, 0, 0], capacity = 8, start = 4, end' = 5\<rparr> \<and>
   cursor_bounds \<lparr>buffer = [0, 0, 1, 2, 3, 0, 0, 0], capacity = 8, start = 4, end' = 5\<rparr>"
proof -
  let ?b = "\<lparr>buffer = [0, 0, 1, 2, 3, 0, 0, 0], capacity = 8, start = 2, end' = 5\<rparr> :: RingBuffer"
  let ?w = "\<lparr>buffer = [0, 0, 1, 2, 3, 4, 5, 0], capacity = 8, start = 2, end' = 7\<rparr> :: RingBuffer"
  let ?r = "\<lparr>buffer = [0, 0, 1, 2, 3, 0, 0, 0], capacity = 8, start = 4, end' = 5\<rparr> :: RingBuffer"
  have pos: "(0 :: size_t) < 8" by simp
  have inv: "cursor_bounds ?b" by (simp add: cursor_bounds_def)
  have w: "RingBuffer_write ?b [4, 5] 2 = Inr (2, ?w)"
    by (simp add: RingBuffer_write_def RingBuffer_available_data_def
          RingBuffer_available_space_def RingBuffer_ends_at_def memcpy_def
          Ringbuffer_commit_write_def)
  have r: "RingBuffer_read ?b [9, 9] 2 = Inr (2, ?r, [1, 2])"
    by (simp add: RingBuffer_read_def RingBuffer_available_data_def
          RingBuffer_starts_at_def memcpy_def RingBuffer_commit_read_def)
  have c: "RingBuffer_clear ?b = Inr ?r"
    by (simp add: RingBuffer_clear_def RingBuffer_available_data_def RingBuffer_commit_read_def)
  note step = cursor_bounds_invariant[of 8 ?b]
  from step pos have 1: "cursor_bounds (RingBuffer_create 8)" by blast
  from step inv w have 2: "cursor_bounds ?w" by blast
  from step inv c have 3: "cursor_bounds ?r" by blast
  from 1 2 3 inv w r c show ?thesis by blast
qed

text \<open>
  C10. Every failure that \<open>write\<close> or \<open>read\<close> reports is the one value
  \<open>(size_t)-1\<close>, that is \<open>2^64 - 1\<close>: a call that returns gives back either the
  requested count or \<open>(size_t)-1\<close>, a write that lacks space and a read that lacks
  data both return \<open>(size_t)-1\<close>, and nothing in the result tells them apart.
\<close>

theorem failures_return_minus_one:
  "(RingBuffer_write b data len = Inr (r, b') \<longrightarrow> r = len \<or> r = - 1) \<and>
   (RingBuffer_read b target amount = Inr (r', b'', t) \<longrightarrow> r' = amount \<or> r' = - 1) \<and>
   (RingBuffer_available_data b = Inr d \<longrightarrow>
      (RingBuffer_available_space (if d = 0 then b\<lparr>start := 0, end' := 0\<rparr> else b) < len \<longrightarrow>
         (\<exists>b1. RingBuffer_write b data len = Inr (- 1, b1))) \<and>
      (d < amount \<longrightarrow> (\<exists>b1 t1. RingBuffer_read b target amount = Inr (- 1, b1, t1)))) \<and>
   unat (- 1 :: size_t) = 2 ^ 64 - 1"
proof -
  have m: "unat (- 1 :: size_t) = 2 ^ 64 - 1"
    by (simp add: unsigned_minus_1_eq_mask mask_eq_exp_minus_1)
  have w: "RingBuffer_write b data len = Inr (r, b') \<longrightarrow> r = len \<or> r = - 1"
    using write_returns by blast
  have r: "RingBuffer_read b target amount = Inr (r', b'', t) \<longrightarrow> r' = amount \<or> r' = - 1"
    using read_returns by blast
  have fw: "\<exists>b1. RingBuffer_write b data len = Inr (- 1, b1)"
    if "RingBuffer_available_data b = Inr d"
      and "RingBuffer_available_space (if d = 0 then b\<lparr>start := 0, end' := 0\<rparr> else b) < len"
    using write_short_of_space[OF that] by blast
  have fr: "\<exists>b1 t1. RingBuffer_read b target amount = Inr (- 1, b1, t1)"
    if "RingBuffer_available_data b = Inr d" and "d < amount"
    using read_short_of_data[OF that] by blast
  from m w r fw fr show ?thesis by blast
qed

theorem failures_return_minus_one_witness:
  "(\<exists>b1. RingBuffer_write
      \<lparr>buffer = [0, 0, 1, 2, 3, 0, 0, 0], capacity = 8, start = 2, end' = 5\<rparr> [7, 7, 7] 3 =
      Inr (- 1, b1)) \<and>
   (\<exists>b1 t1. RingBuffer_read
      \<lparr>buffer = [0, 0, 1, 2, 3, 0, 0, 0], capacity = 8, start = 2, end' = 5\<rparr> [9, 9, 9] 3 =
      Inr (- 1, b1, t1)) \<and>
   RingBuffer_write
      \<lparr>buffer = [0, 0, 1, 2, 3, 0, 0, 0], capacity = 8, start = 2, end' = 5\<rparr> [4, 5] 2 =
      Inr (2, \<lparr>buffer = [0, 0, 1, 2, 3, 4, 5, 0], capacity = 8, start = 2, end' = 7\<rparr>)"
proof -
  let ?b = "\<lparr>buffer = [0, 0, 1, 2, 3, 0, 0, 0], capacity = 8, start = 2, end' = 5\<rparr> :: RingBuffer"
  have d: "RingBuffer_available_data ?b = Inr 2"
    by (simp add: RingBuffer_available_data_def)
  have s: "RingBuffer_available_space (if (2 :: size_t) = 0 then ?b\<lparr>start := 0, end' := 0\<rparr> else ?b) < 3"
    by (simp add: RingBuffer_available_space_def)
  have a: "(2 :: size_t) < 3" by simp
  have w: "RingBuffer_write ?b [4, 5] 2 =
      Inr (2, \<lparr>buffer = [0, 0, 1, 2, 3, 4, 5, 0], capacity = 8, start = 2, end' = 7\<rparr>)"
    by (simp add: RingBuffer_write_def RingBuffer_available_data_def
          RingBuffer_available_space_def RingBuffer_ends_at_def memcpy_def
          Ringbuffer_commit_write_def)
  from failures_return_minus_one[of ?b "[7, 7, 7]" 3 _ _ "[9, 9, 9]" 3 _ _ _ 2] d s a
  have "(\<exists>b1. RingBuffer_write ?b [7, 7, 7] 3 = Inr (- 1, b1)) \<and>
        (\<exists>b1 t1. RingBuffer_read ?b [9, 9, 9] 3 = Inr (- 1, b1, t1))"
    by blast
  with w show ?thesis by blast
qed

end
